theory Spec2Isabelle
  imports Main
begin

section \<open>Speak the Words: the task controller\<close>

text \<open>
  A shallow embedding of the class exported by
  \<^verbatim>\<open>src/app/components/speak-the-words.js\<close>, and of the \<^verbatim>\<open>handleAnswered\<close> path of the
  second copy of that class, \<^verbatim>\<open>src/unnamed/part_000\<close>.

  The object's fields are a record that every method takes and returns. A method that can
  throw returns a pair: the error (if any) and the fields as they are at the moment of the
  throw or of the return, since a JavaScript exception rolls nothing back. Calls into the
  host (\<^verbatim>\<open>H5P.Question\<close>), the speech event store and the media recorder are appended to a
  log, in the order the source makes them.
\<close>

subsection \<open>Data\<close>

datatype js_error = TypeError

text \<open>\<^verbatim>\<open>MediaRecorder.state\<close>. The source never pauses a recorder.\<close>

datatype recorder_state = Inactive | Recording

text \<open>
  \<^verbatim>\<open>extras.previousState\<close>: an object whose keys may each be missing. The constructor reads
  the key \<^verbatim>\<open>vieState\<close>; every other place reads \<^verbatim>\<open>viewState\<close>.
\<close>

record previous_state =
  prev_viewState :: "string option"
  prev_vieState :: "string option"
  prev_lastInterpretations :: "string list option"

definition empty_object :: previous_state where
  "empty_object =
     \<lparr>prev_viewState = None, prev_vieState = None, prev_lastInterpretations = None\<rparr>"

datatype extras = Extras (extras_previousState: "previous_state option")

text \<open>
  The author's parameters after \<^verbatim>\<open>Util.extend\<close> has merged them into the defaults
  (the merge itself is not part of the sources at hand); only the fields the controller
  reads are kept.
\<close>

record parameters =
  question_text :: string
  acceptedAnswers :: "string list"
  incorrectAnswerText :: string
  correctAnswerText :: string

text \<open>The Annyang result event: \<^verbatim>\<open>event.data\<close> is the list of candidate utterances.\<close>

datatype event = Event (data: "string list")

record xapi_statement =
  xapi_verb :: string
  xapi_response :: "string option"
  xapi_score :: nat
  xapi_maxScore :: nat
  xapi_completion :: bool
  xapi_success :: bool
  xapi_description :: string
  xapi_correctResponsesPattern :: "string list"

datatype introduction = UnsupportedNotice | QuestionText string

datatype outbound_call =
    AddButton string
  | HideButton string
  | ShowButton string
  | SetFeedback string nat nat
  | RemoveFeedback
  | SetIntroduction introduction
  | SetContent
  | Trigger string
  | TriggerXAPI xapi_statement
  | SpeechTrigger string
  | GetUserMedia
  | RecorderStart
  | RecorderStop
  | FileExport "string option" "string list"

text \<open>
  \<^verbatim>\<open>questionWrapper.parentNode\<close> with its class list, and the class list of
  \<^verbatim>\<open>parentNode.parentNode\<close> when that node exists.
\<close>

record parent_node =
  classList :: "string list"
  grandParent :: "string list option"

datatype wrapper = Wrapper (parentNode: "parent_node option")

text \<open>
  \<^verbatim>\<open>questionWrapper\<close> is \<open>None\<close> while the field is undefined. The constructor assigns
  \<^verbatim>\<open>speechEventStore\<close>, \<^verbatim>\<open>introduction\<close> and \<^verbatim>\<open>questionWrapper\<close> together, after its check
  of \<^verbatim>\<open>window.annyang\<close>, and nothing reassigns them: the event store is defined exactly
  when the wrapper is. \<open>pendingUserMedia\<close> counts the \<^verbatim>\<open>getUserMedia\<close> promises not yet
  settled, \<open>startListeningHandlers\<close> the handlers their callbacks have subscribed.
\<close>

record session =
  params :: parameters
  previousState :: previous_state
  mediaRecorder :: "recorder_state option"
  mediaChunks :: "string list"
  mediaMIMEType :: "string option"
  hasAnswered :: bool
  score :: nat
  viewState :: "string option"
  lastInterpretations :: "string list option"
  questionWrapper :: "wrapper option"
  pendingUserMedia :: nat
  startListeningHandlers :: nat
  calls :: "outbound_call list"

text \<open>
  What the methods read from the browser and the host: \<^verbatim>\<open>window.annyang\<close>,
  \<^verbatim>\<open>window.MediaRecorder\<close> (\<open>None\<close>: no such API; \<open>Some None\<close>: no \<^verbatim>\<open>isTypeSupported\<close>;
  \<open>Some (Some f)\<close>: \<open>f\<close> is \<^verbatim>\<open>isTypeSupported\<close>), \<^verbatim>\<open>navigator.mediaDevices\<close>,
  \<^verbatim>\<open>H5P.KLFileExporter\<close>, and the parent node the wrapper has once the host's
  \<^verbatim>\<open>setContent\<close> has returned.
\<close>

record environment =
  annyang :: bool
  mediaRecorderApi :: "(string \<Rightarrow> bool) option option"
  mediaDevices :: bool
  klFileExporter :: bool
  contentParent :: "parent_node option"

record current_state =
  cs_viewState :: "string option"
  cs_lastInterpretations :: "string list"

subsection \<open>Helpers of the language\<close>

text \<open>\<^verbatim>\<open>Array.prototype.indexOf\<close>: the first index holding the value, or -1.\<close>

fun indexOf_from :: "'a list \<Rightarrow> 'a \<Rightarrow> int \<Rightarrow> int" where
  "indexOf_from [] x i = - 1"
| "indexOf_from (y # ys) x i = (if y = x then i else indexOf_from ys x (i + 1))"

definition indexOf :: "'a list \<Rightarrow> 'a \<Rightarrow> int" where
  "indexOf xs x = indexOf_from xs x 0"

text \<open>Truthiness of a value that is undefined or a string.\<close>

definition truthy :: "string option \<Rightarrow> bool" where
  "truthy v = (case v of None \<Rightarrow> False | Some x \<Rightarrow> x \<noteq> [])"

text \<open>\<^verbatim>\<open>classList.add\<close> and \<^verbatim>\<open>classList.remove\<close>.\<close>

definition cl_add :: "string \<Rightarrow> string list \<Rightarrow> string list" where
  "cl_add c cl = (if c \<in> set cl then cl else cl @ [c])"

definition cl_remove :: "string list \<Rightarrow> string list \<Rightarrow> string list" where
  "cl_remove cs cl = filter (\<lambda>c. c \<notin> set cs) cl"

text \<open>Sequencing of two calls: an exception of the first skips the second.\<close>

definition and_then ::
  "js_error option \<times> session \<Rightarrow> (session \<Rightarrow> js_error option \<times> session)
     \<Rightarrow> js_error option \<times> session" where
  "and_then r f = (case fst r of Some e \<Rightarrow> r | None \<Rightarrow> f (snd r))"

definition emit :: "outbound_call list \<Rightarrow> session \<Rightarrow> session" where
  "emit cs s = s\<lparr>calls := calls s @ cs\<rparr>"

subsection \<open>The methods of \<^verbatim>\<open>speak-the-words.js\<close>\<close>

definition VIEW_STATES :: "string list" where
  "VIEW_STATES = [''task'', ''results'', ''solutions'']"

definition setViewState :: "string \<Rightarrow> session \<Rightarrow> session" where
  "setViewState state s =
     (if indexOf VIEW_STATES state = - 1 then s
      else (emit [Trigger ''kllStoreSessionState''] s)\<lparr>viewState := Some state\<rparr>)"

definition getScore :: "session \<Rightarrow> nat" where
  "getScore s = score s"

definition getMaxScore :: nat where
  "getMaxScore = 1"

definition isQuestionAnswered :: "session \<Rightarrow> bool" where
  "isQuestionAnswered s = hasAnswered s"

definition getCurrentState :: "session \<Rightarrow> current_state" where
  "getCurrentState s =
     \<lparr>cs_viewState = viewState s,
      cs_lastInterpretations = (case lastInterpretations s of None \<Rightarrow> [] | Some l \<Rightarrow> l)\<rparr>"

definition createButtonBar :: "session \<Rightarrow> session" where
  "createButtonBar s = emit [AddButton ''try-again'', AddButton ''show-solution''] s"

definition constructor ::
  "(string \<Rightarrow> string) \<Rightarrow> environment \<Rightarrow> parameters \<Rightarrow> extras option \<Rightarrow> session" where
  "constructor decode env ps ex =
     (let prev = (case ex of
                    None \<Rightarrow> empty_object
                  | Some (Extras None) \<Rightarrow> empty_object
                  | Some (Extras (Some p)) \<Rightarrow> p);
          s0 = \<lparr>params = ps\<lparr>acceptedAnswers := map decode (acceptedAnswers ps)\<rparr>,
                previousState = prev,
                mediaRecorder = None,
                mediaChunks = [],
                mediaMIMEType = None,
                hasAnswered = False,
                score = 0,
                viewState = None,
                lastInterpretations = None,
                questionWrapper = None,
                pendingUserMedia = 0,
                startListeningHandlers = 0,
                calls = []\<rparr>;
          s1 = setViewState
                 (case prev_vieState prev of
                    None \<Rightarrow> ''task''
                  | Some v \<Rightarrow> if v \<noteq> [] then v else ''task'') s0
      in if \<not> annyang env then s1
         else createButtonBar (s1\<lparr>questionWrapper := Some (Wrapper None)\<rparr>))"

text \<open>
  \<^verbatim>\<open>getXAPIAnswerEvent\<close> with \<^verbatim>\<open>createXAPIEvent\<close> and \<^verbatim>\<open>getxAPIDefinition\<close>: the statement
  carries the verb, the scored result and the accepted answers as the pattern of correct
  responses; \<^verbatim>\<open>triggerXAPIAnswered\<close> adds the response and hands it to the host.
\<close>

definition getXAPIAnswerEvent :: "session \<Rightarrow> xapi_statement" where
  "getXAPIAnswerEvent s =
     \<lparr>xapi_verb = ''answered'',
      xapi_response = None,
      xapi_score = getScore s,
      xapi_maxScore = getMaxScore,
      xapi_completion = True,
      xapi_success = (getScore s = getMaxScore),
      xapi_description = question_text (params s),
      xapi_correctResponsesPattern = acceptedAnswers (params s)\<rparr>"

definition triggerXAPIAnswered :: "string option \<Rightarrow> session \<Rightarrow> session" where
  "triggerXAPIAnswered response s =
     emit [TriggerXAPI ((getXAPIAnswerEvent s)\<lparr>xapi_response := response\<rparr>)] s"

text \<open>
  \<^verbatim>\<open>acceptedAnswers.indexOf(response) !== -1\<close>, as \<^verbatim>\<open>handleAnswered\<close> and \<^verbatim>\<open>recreateState\<close>
  both compute it; the response is undefined when the list of candidates is empty.
\<close>

definition first_candidate :: "string list \<Rightarrow> string option" where
  "first_candidate l = (case l of [] \<Rightarrow> None | r # _ \<Rightarrow> Some r)"

definition is_accepted :: "string list \<Rightarrow> string option \<Rightarrow> bool" where
  "is_accepted accepted response = (indexOf (map Some accepted) response \<noteq> - 1)"

definition stop_active_recorder :: "session \<Rightarrow> session" where
  "stop_active_recorder s =
     (case mediaRecorder s of
        None \<Rightarrow> s
      | Some Inactive \<Rightarrow> s
      | Some Recording \<Rightarrow> (emit [RecorderStop] s)\<lparr>mediaRecorder := Some Inactive\<rparr>)"

definition handleAnswered ::
  "(string \<Rightarrow> string) \<Rightarrow> event \<Rightarrow> session \<Rightarrow> js_error option \<times> session" where
  "handleAnswered decode ev s =
     (let s1 = stop_active_recorder s
      in case questionWrapper s1 of
           None \<Rightarrow> (Some TypeError, s1)
         | Some (Wrapper None) \<Rightarrow> (Some TypeError, s1)
         | Some (Wrapper (Some p)) \<Rightarrow>
             (let p' = p\<lparr>classList := cl_add ''empty'' (classList p),
                         grandParent := map_option (cl_add ''answered'') (grandParent p)\<rparr>;
                  s2 = s1\<lparr>questionWrapper := Some (Wrapper (Some p'))\<rparr>;
                  response = first_candidate (data ev);
                  s3 = s2\<lparr>lastInterpretations := Some (data ev)\<rparr>;
                  correct = is_accepted (acceptedAnswers (params s3)) response;
                  s4 = (if correct
                        then emit [HideButton ''try-again'', HideButton ''show-solution'']
                               (s3\<lparr>score := 1\<rparr>)
                        else emit [ShowButton ''try-again'', ShowButton ''show-solution'']
                               (s3\<lparr>score := 0\<rparr>));
                  answerText = (if correct then correctAnswerText (params s4)
                                else incorrectAnswerText (params s4));
                  s5 = emit [SetFeedback (decode answerText) (getScore s4) getMaxScore] s4;
                  s6 = (if \<not> truthy (prev_viewState (previousState s5))
                           \<or> prev_viewState (previousState s5) = Some ''task''
                        then triggerXAPIAnswered response s5 else s5);
                  s7 = s6\<lparr>hasAnswered := True\<rparr>
              in (None, setViewState ''results'' s7)))"

definition showSolutions :: "session \<Rightarrow> js_error option \<times> session" where
  "showSolutions s =
     (case questionWrapper s of
        None \<Rightarrow> (Some TypeError, s)
      | Some (Wrapper None) \<Rightarrow> (Some TypeError, s)
      | Some (Wrapper (Some p)) \<Rightarrow>
          (let p' = p\<lparr>classList := cl_remove [''empty''] (classList p),
                      grandParent := map_option (cl_add ''showing-solution'') (grandParent p)\<rparr>;
               s1 = s\<lparr>questionWrapper := Some (Wrapper (Some p'))\<rparr>;
               s2 = emit [HideButton ''show-solution'', SpeechTrigger ''show-solution''] s1
           in (None, setViewState ''solutions'' s2)))"

definition resetTask :: "session \<Rightarrow> js_error option \<times> session" where
  "resetTask s =
     (case questionWrapper s of
        None \<Rightarrow> (Some TypeError, s)
      | Some (Wrapper None) \<Rightarrow> (Some TypeError, s)
      | Some (Wrapper (Some p)) \<Rightarrow>
          (let p' = p\<lparr>classList := cl_remove [''empty''] (classList p),
                      grandParent :=
                        map_option (cl_remove [''answered'', ''showing-solution''])
                          (grandParent p)\<rparr>;
               s1 = s\<lparr>questionWrapper := Some (Wrapper (Some p'))\<rparr>;
               s2 = emit [HideButton ''try-again'', HideButton ''show-solution'',
                          RemoveFeedback, SpeechTrigger ''reset-task''] s1;
               s3 = s2\<lparr>hasAnswered := False, score := 0\<rparr>;
               s4 = emit [Trigger ''reset-task''] s3;
               s5 = s4\<lparr>previousState := empty_object, lastInterpretations := Some []\<rparr>
           in (None, setViewState ''task'' s5)))"

definition stopListening :: "session \<Rightarrow> js_error option \<times> session" where
  "stopListening s =
     (case questionWrapper s of
        None \<Rightarrow> (Some TypeError, s)
      | Some w \<Rightarrow> (None, emit [SpeechTrigger ''stop-all-media''] s))"

definition getRecordingMIMEType :: "environment \<Rightarrow> string option" where
  "getRecordingMIMEType env =
     (case mediaRecorderApi env of
        None \<Rightarrow> None
      | Some None \<Rightarrow> Some ''audio/mp4''
      | Some (Some isTypeSupported) \<Rightarrow>
          if isTypeSupported ''audio/webm'' then Some ''audio/webm''
          else if isTypeSupported ''audio/mp4'' then Some ''audio/mp4''
          else None)"

text \<open>
  \<^verbatim>\<open>speechEventStore.trigger\<close> of one of the two answer events: the store is undefined when
  the wrapper is, and its listener \<^verbatim>\<open>handleAnswered\<close> runs inside the call, with the
  triggered list as \<^verbatim>\<open>event.data\<close>.
\<close>

definition trigger_answered ::
  "(string \<Rightarrow> string) \<Rightarrow> string \<Rightarrow> string list \<Rightarrow> session \<Rightarrow> js_error option \<times> session" where
  "trigger_answered decode name l s =
     (case questionWrapper s of
        None \<Rightarrow> (Some TypeError, s)
      | Some w \<Rightarrow> handleAnswered decode (Event l) (emit [SpeechTrigger name] s))"

definition recreateState ::
  "(string \<Rightarrow> string) \<Rightarrow> session \<Rightarrow> js_error option \<times> session" where
  "recreateState decode s =
     (case prev_lastInterpretations (previousState s) of
        None \<Rightarrow> (Some TypeError, s)
      | Some l \<Rightarrow>
          (let wasCorrect = is_accepted (acceptedAnswers (params s)) (first_candidate l);
               r1 = (if prev_viewState (previousState s) = Some ''results''
                        \<or> prev_viewState (previousState s) = Some ''solutions''
                     then (if wasCorrect
                           then trigger_answered decode ''answered-correctly'' l s
                           else trigger_answered decode ''answered-wrong'' l s)
                     else (None, s));
               r2 = and_then r1 (\<lambda>t.
                      if prev_viewState (previousState t) = Some ''solutions''
                      then showSolutions t else (None, t))
           in and_then r2 (\<lambda>t.
                case questionWrapper t of
                  None \<Rightarrow> (Some TypeError, t)
                | Some w \<Rightarrow> (None, emit [SpeechTrigger ''resize''] t))))"

definition registerDomElements ::
  "(string \<Rightarrow> string) \<Rightarrow> environment \<Rightarrow> session \<Rightarrow> js_error option \<times> session" where
  "registerDomElements decode env s =
     (if \<not> annyang env then (None, emit [SetIntroduction UnsupportedNotice] s)
      else
        (let s1 = s\<lparr>mediaMIMEType := getRecordingMIMEType env\<rparr>
         in if truthy (mediaMIMEType s1) \<and> \<not> mediaDevices env then (Some TypeError, s1)
            else
              (let s2 = (if truthy (mediaMIMEType s1)
                         then (emit [GetUserMedia] s1)
                                \<lparr>pendingUserMedia := pendingUserMedia s1 + 1\<rparr>
                         else s1);
                   s3 = emit [SetIntroduction
                                (QuestionText (decode (question_text (params s2)))),
                              SetContent] s2;
                   s4 = s3\<lparr>questionWrapper :=
                             map_option (\<lambda>w. Wrapper (contentParent env)) (questionWrapper s3)\<rparr>
               in case prev_lastInterpretations (previousState s4) of
                    None \<Rightarrow> (None, s4)
                  | Some [] \<Rightarrow> (None, s4)
                  | Some (x # xs) \<Rightarrow> recreateState decode s4)))"

subsection \<open>Callbacks of the media recorder\<close>

text \<open>
  The callback of the \<^verbatim>\<open>getUserMedia\<close> promise (it runs only for a promise that
  \<^verbatim>\<open>registerDomElements\<close> has created): a new recorder, inactive, and one more subscriber
  to \<^verbatim>\<open>start-listening\<close>. A rejected promise has no handler.
\<close>

definition onUserMediaGranted :: "session \<Rightarrow> session" where
  "onUserMediaGranted s =
     (if pendingUserMedia s = 0 then s
      else s\<lparr>mediaRecorder := Some Inactive,
             startListeningHandlers := startListeningHandlers s + 1,
             pendingUserMedia := pendingUserMedia s - 1\<rparr>)"

definition onUserMediaDenied :: "session \<Rightarrow> session" where
  "onUserMediaDenied s =
     (if pendingUserMedia s = 0 then s
      else s\<lparr>pendingUserMedia := pendingUserMedia s - 1\<rparr>)"

text \<open>The subscribers to \<^verbatim>\<open>start-listening\<close>: the first one starts an idle recorder.\<close>

definition onStartListening :: "session \<Rightarrow> session" where
  "onStartListening s =
     (if startListeningHandlers s = 0 then s
      else case mediaRecorder s of
             None \<Rightarrow> s
           | Some Recording \<Rightarrow> s
           | Some Inactive \<Rightarrow> (emit [RecorderStart] s)\<lparr>mediaRecorder := Some Recording\<rparr>)"

definition ondataavailable :: "string \<Rightarrow> session \<Rightarrow> session" where
  "ondataavailable chunk s =
     (case mediaRecorder s of
        None \<Rightarrow> s
      | Some r \<Rightarrow> s\<lparr>mediaChunks := mediaChunks s @ [chunk]\<rparr>)"

definition onstop :: "environment \<Rightarrow> session \<Rightarrow> session" where
  "onstop env s =
     (case mediaRecorder s of
        None \<Rightarrow> s
      | Some r \<Rightarrow>
          (let blob = mediaChunks s;
               s1 = s\<lparr>mediaChunks := []\<rparr>
           in if klFileExporter env then emit [FileExport (mediaMIMEType s1) blob] s1
              else s1))"

subsection \<open>Sessions\<close>

text \<open>
  What can happen to a controller once it is constructed: the host registers its
  elements, attaches the content section to its container or presses one of the two
  buttons, the speech engine delivers an outcome or a start of listening, the host forces
  a stop, and the browser settles a promise or calls the recorder back.
\<close>

datatype command =
    RegisterDomElements
  | Answered event
  | ResetTask
  | ShowSolutions
  | StopListening
  | HostAttach
  | UserMediaGranted
  | UserMediaDenied
  | StartListening
  | DataAvailable string
  | RecorderStopped

definition host_attach :: "session \<Rightarrow> session" where
  "host_attach s =
     (case questionWrapper s of
        Some (Wrapper (Some p)) \<Rightarrow>
          (case grandParent p of
             None \<Rightarrow> s\<lparr>questionWrapper := Some (Wrapper (Some (p\<lparr>grandParent := Some []\<rparr>)))\<rparr>
           | Some g \<Rightarrow> s)
      | _ \<Rightarrow> s)"

fun exec ::
  "(string \<Rightarrow> string) \<Rightarrow> environment \<Rightarrow> command \<Rightarrow> session \<Rightarrow> js_error option \<times> session" where
  "exec decode env RegisterDomElements s = registerDomElements decode env s"
| "exec decode env (Answered ev) s = handleAnswered decode ev s"
| "exec decode env ResetTask s = resetTask s"
| "exec decode env ShowSolutions s = showSolutions s"
| "exec decode env StopListening s = stopListening s"
| "exec decode env HostAttach s = (None, host_attach s)"
| "exec decode env UserMediaGranted s = (None, onUserMediaGranted s)"
| "exec decode env UserMediaDenied s = (None, onUserMediaDenied s)"
| "exec decode env StartListening s = (None, onStartListening s)"
| "exec decode env (DataAvailable chunk) s = (None, ondataavailable chunk s)"
| "exec decode env RecorderStopped s = (None, onstop env s)"

text \<open>
  The persisted state has the keys \<^verbatim>\<open>viewState\<close> and \<^verbatim>\<open>lastInterpretations\<close> only: this is
  what \<^verbatim>\<open>getCurrentState\<close> returns and what the host hands back as
  \<^verbatim>\<open>extras.previousState\<close>.
\<close>

definition as_previous :: "current_state \<Rightarrow> previous_state" where
  "as_previous c =
     \<lparr>prev_viewState = cs_viewState c,
      prev_vieState = None,
      prev_lastInterpretations = Some (cs_lastInterpretations c)\<rparr>"

definition persisted_shape :: "extras option \<Rightarrow> bool" where
  "persisted_shape ex =
     (case ex of
        None \<Rightarrow> True
      | Some (Extras None) \<Rightarrow> True
      | Some (Extras (Some p)) \<Rightarrow> prev_vieState p = None)"

inductive reachable :: "(string \<Rightarrow> string) \<Rightarrow> environment \<Rightarrow> session \<Rightarrow> bool"
  for decode :: "string \<Rightarrow> string" and env :: environment where
  constructed: "persisted_shape ex \<Longrightarrow> reachable decode env (constructor decode env ps ex)"
| executed: "reachable decode env s \<Longrightarrow> reachable decode env (snd (exec decode env c s))"

definition mounted :: "session \<Rightarrow> bool" where
  "mounted s =
     (case questionWrapper s of
        None \<Rightarrow> False
      | Some (Wrapper None) \<Rightarrow> False
      | Some (Wrapper (Some p)) \<Rightarrow> True)"

text \<open>The Interaction Outcome Records among the calls made to the host.\<close>

fun is_xapi :: "outbound_call \<Rightarrow> bool" where
  "is_xapi (TriggerXAPI x) = True"
| "is_xapi c = False"

definition published :: "session \<Rightarrow> nat" where
  "published s = length (filter is_xapi (calls s))"

text \<open>The calls that show or hide a control.\<close>

fun is_button_call :: "outbound_call \<Rightarrow> bool" where
  "is_button_call (HideButton b) = True"
| "is_button_call (ShowButton b) = True"
| "is_button_call c = False"

definition button_calls_since :: "session \<Rightarrow> session \<Rightarrow> outbound_call list" where
  "button_calls_since s s' =
     filter is_button_call (drop (length (calls s)) (calls s'))"

text \<open>The statement \<^verbatim>\<open>handleAnswered\<close> publishes for an event, when it publishes one.\<close>

definition xapi_of :: "session \<Rightarrow> event \<Rightarrow> xapi_statement" where
  "xapi_of s ev =
     (let correct = is_accepted (acceptedAnswers (params s)) (first_candidate (data ev)) in
     \<lparr>xapi_verb = ''answered'',
      xapi_response = first_candidate (data ev),
      xapi_score = (if correct then 1 else 0),
      xapi_maxScore = 1,
      xapi_completion = True,
      xapi_success = correct,
      xapi_description = question_text (params s),
      xapi_correctResponsesPattern = acceptedAnswers (params s)\<rparr>)"

text \<open>The view state is one of the three names.\<close>

definition legal_view :: "session \<Rightarrow> bool" where
  "legal_view s =
     (viewState s = Some ''task'' \<or> viewState s = Some ''results''
        \<or> viewState s = Some ''solutions'')"

text \<open>The fields of a session in which nothing has been answered yet.\<close>

definition untouched :: "session \<Rightarrow> bool" where
  "untouched s =
     (viewState s = Some ''task'' \<and> score s = 0 \<and> \<not> hasAnswered s
        \<and> (lastInterpretations s = None \<or> lastInterpretations s = Some []))"

text \<open>No recorder, no promise of one, no chunk.\<close>

definition no_capture :: "session \<Rightarrow> bool" where
  "no_capture s = (mediaRecorder s = None \<and> pendingUserMedia s = 0 \<and> mediaChunks s = [])"

text \<open>
  While the wrapper has no parent node, every method that changes the score or the view
  state throws on its first read of \<^verbatim>\<open>parentNode.classList\<close>; and the wrapper gets a parent
  only where the host's \<^verbatim>\<open>setContent\<close> gives it one.
\<close>

definition dormant :: "environment \<Rightarrow> session \<Rightarrow> bool" where
  "dormant env s =
     ((\<not> mounted s \<longrightarrow> untouched s) \<and> (mounted s \<longrightarrow> contentParent env \<noteq> None))"

text \<open>
  Initialisation from a persisted state: the host constructs the controller with the
  state as \<^verbatim>\<open>extras.previousState\<close> and then registers its elements.
\<close>

definition resume ::
  "(string \<Rightarrow> string) \<Rightarrow> environment \<Rightarrow> parameters \<Rightarrow> current_state
     \<Rightarrow> js_error option \<times> session" where
  "resume decode env ps snapshot =
     registerDomElements decode env
       (constructor decode env ps (Some (Extras (Some (as_previous snapshot)))))"

subsection \<open>The second copy of the class: \<^verbatim>\<open>src/unnamed/part_000\<close>\<close>

text \<open>
  \<^verbatim>\<open>part_000\<close> keeps no view state and no previous state. Its constructor sets
  \<^verbatim>\<open>mediaRecorder\<close> to null as the other does, its \<^verbatim>\<open>registerDomElements\<close> ends after
  \<^verbatim>\<open>setContent\<close>, and its \<^verbatim>\<open>handleAnswered\<close> reads \<^verbatim>\<open>this.mediaRecorder.state\<close> first, with
  no test of \<^verbatim>\<open>this.mediaRecorder\<close>.
\<close>

definition constructor_part_000 ::
  "(string \<Rightarrow> string) \<Rightarrow> environment \<Rightarrow> parameters \<Rightarrow> session" where
  "constructor_part_000 decode env ps =
     (let s0 = \<lparr>params = ps\<lparr>acceptedAnswers := map decode (acceptedAnswers ps)\<rparr>,
                previousState = empty_object,
                mediaRecorder = None,
                mediaChunks = [],
                mediaMIMEType = None,
                hasAnswered = False,
                score = 0,
                viewState = None,
                lastInterpretations = None,
                questionWrapper = None,
                pendingUserMedia = 0,
                startListeningHandlers = 0,
                calls = []\<rparr>
      in if \<not> annyang env then s0
         else createButtonBar (s0\<lparr>questionWrapper := Some (Wrapper None)\<rparr>))"

definition registerDomElements_part_000 ::
  "(string \<Rightarrow> string) \<Rightarrow> environment \<Rightarrow> session \<Rightarrow> js_error option \<times> session" where
  "registerDomElements_part_000 decode env s =
     (if \<not> annyang env then (None, emit [SetIntroduction UnsupportedNotice] s)
      else
        (let s1 = s\<lparr>mediaMIMEType := getRecordingMIMEType env\<rparr>
         in if truthy (mediaMIMEType s1) \<and> \<not> mediaDevices env then (Some TypeError, s1)
            else
              (let s2 = (if truthy (mediaMIMEType s1)
                         then (emit [GetUserMedia] s1)
                                \<lparr>pendingUserMedia := pendingUserMedia s1 + 1\<rparr>
                         else s1);
                   s3 = emit [SetIntroduction
                                (QuestionText (decode (question_text (params s2)))),
                              SetContent] s2
               in (None, s3\<lparr>questionWrapper :=
                             map_option (\<lambda>w. Wrapper (contentParent env))
                               (questionWrapper s3)\<rparr>))))"

definition handleAnswered_part_000 ::
  "(string \<Rightarrow> string) \<Rightarrow> event \<Rightarrow> session \<Rightarrow> js_error option \<times> session" where
  "handleAnswered_part_000 decode ev s =
     (case mediaRecorder s of
        None \<Rightarrow> (Some TypeError, s)
      | Some r \<Rightarrow>
          (let s1 = stop_active_recorder s
           in case questionWrapper s1 of
                None \<Rightarrow> (Some TypeError, s1)
              | Some (Wrapper None) \<Rightarrow> (Some TypeError, s1)
              | Some (Wrapper (Some p)) \<Rightarrow>
                  (let p' = p\<lparr>classList := cl_add ''empty'' (classList p),
                              grandParent :=
                                map_option (cl_add ''answered'') (grandParent p)\<rparr>;
                       s2 = s1\<lparr>questionWrapper := Some (Wrapper (Some p'))\<rparr>;
                       response = first_candidate (data ev);
                       correct = is_accepted (acceptedAnswers (params s2)) response;
                       s4 = (if correct
                             then emit [HideButton ''try-again'', HideButton ''show-solution'']
                                    (s2\<lparr>score := 1\<rparr>)
                             else emit [ShowButton ''try-again'', ShowButton ''show-solution'']
                                    (s2\<lparr>score := 0\<rparr>));
                       answerText = (if correct then correctAnswerText (params s4)
                                     else incorrectAnswerText (params s4));
                       s5 = emit [SetFeedback (decode answerText) (getScore s4) getMaxScore] s4;
                       s6 = triggerXAPIAnswered response s5
                   in (None, s6\<lparr>hasAnswered := True\<rparr>))))"

subsection \<open>A concrete exercise\<close>

definition paris_params :: parameters where
  "paris_params =
     \<lparr>question_text = ''Capital of France?'',
      acceptedAnswers = [''paris''],
      incorrectAnswerText = ''Incorrect answer'',
      correctAnswerText = ''Correct answer''\<rparr>"

text \<open>A browser with the speech engine and no recorder API; the host mounts the content.\<close>

definition plain_env :: environment where
  "plain_env =
     \<lparr>annyang = True,
      mediaRecorderApi = None,
      mediaDevices = False,
      klFileExporter = False,
      contentParent = Some \<lparr>classList = [], grandParent = None\<rparr>\<rparr>"

text \<open>A fresh session of that exercise, its elements registered, waiting for an answer.\<close>

definition fresh_task :: session where
  "fresh_task =
     snd (registerDomElements id plain_env (constructor id plain_env paris_params None))"

definition fresh_task_part_000 :: session where
  "fresh_task_part_000 =
     snd (registerDomElements_part_000 id plain_env
            (constructor_part_000 id plain_env paris_params))"

text \<open>The same session after the wrong answer "london".\<close>

definition answered_wrong :: session where
  "answered_wrong = snd (handleAnswered id (Event [''london'']) fresh_task)"

text \<open>A browser whose recorder cannot tell which types it supports, and one that records mp4 only.\<close>

definition legacy_env :: environment where
  "legacy_env = plain_env\<lparr>mediaRecorderApi := Some None, mediaDevices := True\<rparr>"

definition mp4_env :: environment where
  "mp4_env =
     plain_env\<lparr>mediaRecorderApi := Some (Some (\<lambda>t. t = ''audio/mp4'')), mediaDevices := True\<rparr>"

section \<open>Properties of the methods\<close>

subsection \<open>Membership and the view state names\<close>

lemma indexOf_from_absent: "0 \<le> i \<Longrightarrow> (indexOf_from xs x i = - 1) = (x \<notin> set xs)"
proof (induction xs arbitrary: i)
  case Nil
  show ?case by simp
next
  case (Cons y ys)
  from Cons.prems have "0 \<le> i + 1" by simp
  from Cons.IH [OF this] Cons.prems show ?case by auto
qed

lemma indexOf_absent: "(indexOf xs x = - 1) = (x \<notin> set xs)"
  by (simp add: indexOf_def indexOf_from_absent)

lemma is_accepted_Some: "is_accepted A (Some r) = (r \<in> set A)"
  by (auto simp: is_accepted_def indexOf_absent)

lemma is_accepted_None: "is_accepted A None = False"
  by (auto simp: is_accepted_def indexOf_absent)

lemma is_accepted_first: "is_accepted A (first_candidate l) = (l \<noteq> [] \<and> hd l \<in> set A)"
  by (cases l) (simp_all add: first_candidate_def is_accepted_Some is_accepted_None)

lemma legal_name: "(indexOf VIEW_STATES v = - 1) = (v \<notin> {''task'', ''results'', ''solutions''})"
  by (simp add: indexOf_absent VIEW_STATES_def)

lemma setViewState_legal:
  "v \<in> {''task'', ''results'', ''solutions''} \<Longrightarrow>
   setViewState v s = s\<lparr>calls := calls s @ [Trigger ''kllStoreSessionState''], viewState := Some v\<rparr>"
  by (simp add: setViewState_def legal_name emit_def del: insert_iff)

lemma setViewState_illegal:
  "v \<notin> {''task'', ''results'', ''solutions''} \<Longrightarrow> setViewState v s = s"
  by (simp add: setViewState_def legal_name del: insert_iff)

subsection \<open>One outcome event\<close>

lemma mountedE: "mounted s \<Longrightarrow> \<exists>p. questionWrapper s = Some (Wrapper (Some p))"
  by (auto simp: mounted_def split: option.splits wrapper.splits)

lemma stop_active_recorder_fields [simp]:
  "questionWrapper (stop_active_recorder s) = questionWrapper s"
  "params (stop_active_recorder s) = params s"
  "previousState (stop_active_recorder s) = previousState s"
  "viewState (stop_active_recorder s) = viewState s"
  "score (stop_active_recorder s) = score s"
  "hasAnswered (stop_active_recorder s) = hasAnswered s"
  "lastInterpretations (stop_active_recorder s) = lastInterpretations s"
  "published (stop_active_recorder s) = published s"
  "filter is_xapi (calls (stop_active_recorder s)) = filter is_xapi (calls s)"
  by (simp_all add: stop_active_recorder_def emit_def published_def split: option.splits recorder_state.splits)

lemma handleAnswered_mounted:
  assumes "mounted s"
  shows "fst (handleAnswered decode ev s) = None"
    and "viewState (snd (handleAnswered decode ev s)) = Some ''results''"
    and "hasAnswered (snd (handleAnswered decode ev s))"
    and "lastInterpretations (snd (handleAnswered decode ev s)) = Some (data ev)"
    and "previousState (snd (handleAnswered decode ev s)) = previousState s"
    and "params (snd (handleAnswered decode ev s)) = params s"
    and "mounted (snd (handleAnswered decode ev s))"
    and "score (snd (handleAnswered decode ev s)) =
           (if is_accepted (acceptedAnswers (params s)) (first_candidate (data ev)) then 1 else 0)"
    and "published (snd (handleAnswered decode ev s)) = published s +
           (if \<not> truthy (prev_viewState (previousState s)) \<or> prev_viewState (previousState s) = Some ''task''
            then 1 else 0)"
  using mountedE [OF assms]
  by (auto simp: handleAnswered_def Let_def setViewState_legal emit_def triggerXAPIAnswered_def
      published_def mounted_def)

lemma stop_active_recorder_calls:
  "calls (stop_active_recorder s) =
     calls s @ (if mediaRecorder s = Some Recording then [RecorderStop] else [])"
  by (simp add: stop_active_recorder_def emit_def split: option.splits recorder_state.splits)

lemma handleAnswered_unmounted:
  "\<not> mounted s \<Longrightarrow> handleAnswered decode ev s = (Some TypeError, stop_active_recorder s)"
  by (auto simp: handleAnswered_def mounted_def Let_def split: option.splits wrapper.splits)

lemma handleAnswered_calls:
  assumes "mounted s"
  shows "calls (snd (handleAnswered decode ev s)) =
     calls s @ (if mediaRecorder s = Some Recording then [RecorderStop] else [])
       @ (if is_accepted (acceptedAnswers (params s)) (first_candidate (data ev))
          then [HideButton ''try-again'', HideButton ''show-solution'',
                SetFeedback (decode (correctAnswerText (params s))) 1 1]
          else [ShowButton ''try-again'', ShowButton ''show-solution'',
                SetFeedback (decode (incorrectAnswerText (params s))) 0 1])
       @ (if \<not> truthy (prev_viewState (previousState s))
             \<or> prev_viewState (previousState s) = Some ''task''
          then [TriggerXAPI (xapi_of s ev)] else [])
       @ [Trigger ''kllStoreSessionState'']"
  using mountedE [OF assms]
  by (auto simp: handleAnswered_def Let_def setViewState_legal emit_def triggerXAPIAnswered_def
      getScore_def getMaxScore_def stop_active_recorder_calls xapi_of_def getXAPIAnswerEvent_def)

subsection \<open>The fresh session\<close>

lemma constructor_plain:
  "constructor id plain_env paris_params None =
     \<lparr>params = paris_params, previousState = empty_object, mediaRecorder = None,
      mediaChunks = [], mediaMIMEType = None, hasAnswered = False, score = 0,
      viewState = Some ''task'', lastInterpretations = None,
      questionWrapper = Some (Wrapper None), pendingUserMedia = 0,
      startListeningHandlers = 0,
      calls = [Trigger ''kllStoreSessionState'', AddButton ''try-again'',
                   AddButton ''show-solution'']\<rparr>"
  by (simp add: constructor_def plain_env_def paris_params_def Let_def setViewState_legal
      emit_def createButtonBar_def empty_object_def)

lemma fresh_task_eq:
  "fresh_task =
     \<lparr>params = paris_params, previousState = empty_object, mediaRecorder = None,
      mediaChunks = [], mediaMIMEType = None, hasAnswered = False, score = 0,
      viewState = Some ''task'', lastInterpretations = None,
      questionWrapper = Some (Wrapper (Some \<lparr>classList = [], grandParent = None\<rparr>)),
      pendingUserMedia = 0, startListeningHandlers = 0,
      calls = [Trigger ''kllStoreSessionState'', AddButton ''try-again'',
                   AddButton ''show-solution'',
                   SetIntroduction (QuestionText ''Capital of France?''), SetContent]\<rparr>"
  unfolding fresh_task_def constructor_plain
  by (simp add: registerDomElements_def plain_env_def getRecordingMIMEType_def truthy_def
      Let_def emit_def empty_object_def paris_params_def)

lemma fresh_task_facts:
  "mounted fresh_task" "viewState fresh_task = Some ''task''" "published fresh_task = 0"
  "prev_viewState (previousState fresh_task) = None" "mediaRecorder fresh_task = None"
  "acceptedAnswers (params fresh_task) = [''paris'']" "score fresh_task = 0"
  "\<not> hasAnswered fresh_task"
  by (simp_all add: fresh_task_eq mounted_def published_def empty_object_def paris_params_def)

subsection \<open>Show solution and reset\<close>

lemma showSolutions_mounted:
  assumes "mounted s"
  shows "fst (showSolutions s) = None"
    and "viewState (snd (showSolutions s)) = Some ''solutions''"
    and "mounted (snd (showSolutions s))"
    and "score (snd (showSolutions s)) = score s"
    and "hasAnswered (snd (showSolutions s)) = hasAnswered s"
    and "lastInterpretations (snd (showSolutions s)) = lastInterpretations s"
    and "previousState (snd (showSolutions s)) = previousState s"
    and "params (snd (showSolutions s)) = params s"
    and "published (snd (showSolutions s)) = published s"
    and "calls (snd (showSolutions s)) =
           calls s @ [HideButton ''show-solution'', SpeechTrigger ''show-solution'',
                          Trigger ''kllStoreSessionState'']"
  using mountedE [OF assms]
  by (auto simp: showSolutions_def Let_def setViewState_legal emit_def published_def mounted_def)

lemma showSolutions_unmounted: "\<not> mounted s \<Longrightarrow> showSolutions s = (Some TypeError, s)"
  by (auto simp: showSolutions_def mounted_def split: option.splits wrapper.splits)

lemma resetTask_unmounted: "\<not> mounted s \<Longrightarrow> resetTask s = (Some TypeError, s)"
  by (auto simp: resetTask_def mounted_def split: option.splits wrapper.splits)

lemma resetTask_mounted:
  assumes "mounted s"
  shows "fst (resetTask s) = None"
    and "viewState (snd (resetTask s)) = Some ''task''"
    and "mounted (snd (resetTask s))"
    and "score (snd (resetTask s)) = 0"
    and "\<not> hasAnswered (snd (resetTask s))"
    and "lastInterpretations (snd (resetTask s)) = Some []"
    and "previousState (snd (resetTask s)) = empty_object"
    and "params (snd (resetTask s)) = params s"
    and "published (snd (resetTask s)) = published s"
  using mountedE [OF assms]
  by (auto simp: resetTask_def Let_def setViewState_legal emit_def published_def mounted_def)

subsection \<open>The view state after construction\<close>

lemma viewState_setViewState:
  "viewState (setViewState v s) =
     (if v \<in> {''task'', ''results'', ''solutions''} then Some v else viewState s)"
  by (simp add: setViewState_legal setViewState_illegal del: insert_iff)

lemma viewState_constructor:
  "viewState (constructor decode env ps ex) =
     (case ex of
        Some (Extras (Some p)) \<Rightarrow>
          (case prev_vieState p of
             None \<Rightarrow> Some ''task''
           | Some v \<Rightarrow> if v = [] then Some ''task''
                       else if v \<in> {''task'', ''results'', ''solutions''} then Some v else None)
      | _ \<Rightarrow> Some ''task'')"
  by (auto simp: constructor_def Let_def viewState_setViewState empty_object_def emit_def
      createButtonBar_def split: option.splits extras.splits)

subsection \<open>What registration preserves\<close>

text \<open>
  A predicate kept by \<^verbatim>\<open>handleAnswered\<close>, by \<^verbatim>\<open>showSolutions\<close>, by logging and by the three
  assignments of \<^verbatim>\<open>registerDomElements\<close> is kept by \<^verbatim>\<open>registerDomElements\<close>, replay included.
\<close>

lemma and_then_preserves:
  assumes "P (snd r)" and "\<And>t. P t \<Longrightarrow> P (snd (f t))"
  shows "P (snd (and_then r f))"
  using assms by (simp add: and_then_def split: option.splits)

lemma recreateState_preserves:
  assumes hA: "\<And>ev t. P t \<Longrightarrow> P (snd (handleAnswered decode ev t))"
    and sS: "\<And>t. P t \<Longrightarrow> P (snd (showSolutions t))"
    and hC: "\<And>cs t. P t \<Longrightarrow> P (emit cs t)"
    and s: "P s"
  shows "P (snd (recreateState decode s))"
proof (cases "prev_lastInterpretations (previousState s)")
  case None
  then show ?thesis using s by (simp add: recreateState_def)
next
  case (Some l)
  have tr: "\<And>name. P (snd (trigger_answered decode name l s))"
    using s hA hC by (simp add: trigger_answered_def split: option.splits)
  define r1 where "r1 =
    (if prev_viewState (previousState s) = Some ''results''
        \<or> prev_viewState (previousState s) = Some ''solutions''
     then (if is_accepted (acceptedAnswers (params s)) (first_candidate l)
           then trigger_answered decode ''answered-correctly'' l s
           else trigger_answered decode ''answered-wrong'' l s)
     else (None, s))"
  have p1: "P (snd r1)" using tr s by (simp add: r1_def)
  define r2 where "r2 = and_then r1 (\<lambda>t.
      if prev_viewState (previousState t) = Some ''solutions''
      then showSolutions t else (None, t))"
  have p2: "P (snd r2)" unfolding r2_def
    by (rule and_then_preserves [where P = P]) (simp_all add: p1 sS)
  have "P (snd (and_then r2 (\<lambda>t.
                case questionWrapper t of
                  None \<Rightarrow> (Some TypeError, t)
                | Some w \<Rightarrow> (None, emit [SpeechTrigger ''resize''] t))))"
    by (rule and_then_preserves [where P = P]) (simp_all add: p2 hC split: option.splits)
  then show ?thesis
    by (simp add: recreateState_def Some Let_def r1_def r2_def)
qed

lemma registerDomElements_preserves:
  assumes hA: "\<And>ev t. P t \<Longrightarrow> P (snd (handleAnswered decode ev t))"
    and sS: "\<And>t. P t \<Longrightarrow> P (snd (showSolutions t))"
    and hC: "\<And>cs t. P t \<Longrightarrow> P (emit cs t)"
    and mt: "\<And>t. P t \<Longrightarrow> P (t\<lparr>mediaMIMEType := getRecordingMIMEType env\<rparr>)"
    and pd: "\<And>t. P t \<Longrightarrow> getRecordingMIMEType env \<noteq> None
                 \<Longrightarrow> P (t\<lparr>pendingUserMedia := pendingUserMedia t + 1\<rparr>)"
    and qw: "\<And>t. P t \<Longrightarrow> annyang env \<Longrightarrow> P (t\<lparr>questionWrapper :=
                 map_option (\<lambda>w. Wrapper (contentParent env)) (questionWrapper t)\<rparr>)"
    and s: "P s"
  shows "P (snd (registerDomElements decode env s))"
proof (cases "annyang env")
  case False
  then show ?thesis using s hC by (simp add: registerDomElements_def)
next
  case True
  define s1 where "s1 = s\<lparr>mediaMIMEType := getRecordingMIMEType env\<rparr>"
  have p1: "P s1" using s mt by (simp add: s1_def)
  define s2 where "s2 = (if truthy (mediaMIMEType s1)
                         then (emit [GetUserMedia] s1)
                                \<lparr>pendingUserMedia := pendingUserMedia s1 + 1\<rparr>
                         else s1)"
  have m1: "mediaMIMEType s1 = getRecordingMIMEType env" by (simp add: s1_def)
  have hp: "pendingUserMedia (emit [GetUserMedia] s1) = pendingUserMedia s1"
    by (simp add: emit_def)
  have p2: "P s2"
  proof (cases "truthy (mediaMIMEType s1)")
    case True
    then have "getRecordingMIMEType env \<noteq> None" using m1 by (auto simp: truthy_def split: option.splits)
    from pd [OF hC [OF p1, of "[GetUserMedia]"] this] True show ?thesis
      by (simp add: s2_def hp)
  next
    case False
    then show ?thesis using p1 by (simp add: s2_def)
  qed
  define s3 where "s3 = emit [SetIntroduction (QuestionText (decode (question_text (params s2)))),
                              SetContent] s2"
  have p3: "P s3" using p2 hC by (simp add: s3_def)
  define s4 where "s4 = s3\<lparr>questionWrapper :=
                             map_option (\<lambda>w. Wrapper (contentParent env)) (questionWrapper s3)\<rparr>"
  have p4: "P s4" using qw [OF p3 True] by (simp add: s4_def)
  have p5: "P (snd (recreateState decode s4))"
    by (rule recreateState_preserves [OF hA sS hC p4])
  have "registerDomElements decode env s =
          (if truthy (mediaMIMEType s1) \<and> \<not> mediaDevices env then (Some TypeError, s1)
           else case prev_lastInterpretations (previousState s4) of
                    None \<Rightarrow> (None, s4)
                  | Some [] \<Rightarrow> (None, s4)
                  | Some (x # xs) \<Rightarrow> recreateState decode s4)"
    unfolding registerDomElements_def Let_def s1_def s2_def s3_def s4_def
    using True by (simp only: not_True_eq_False if_False)
  then show ?thesis using p1 p4 p5 by (simp split: option.splits list.splits)
qed

subsection \<open>Fields the operations leave alone\<close>

lemma emit_fields [simp]:
  "viewState (emit cs s) = viewState s"
  "score (emit cs s) = score s"
  "hasAnswered (emit cs s) = hasAnswered s"
  "lastInterpretations (emit cs s) = lastInterpretations s"
  "questionWrapper (emit cs s) = questionWrapper s"
  "mediaRecorder (emit cs s) = mediaRecorder s"
  "pendingUserMedia (emit cs s) = pendingUserMedia s"
  "mediaChunks (emit cs s) = mediaChunks s"
  "params (emit cs s) = params s"
  "previousState (emit cs s) = previousState s"
  "mounted (emit cs s) = mounted s"
  by (simp_all add: emit_def mounted_def)

lemma stop_active_recorder_more [simp]:
  "mounted (stop_active_recorder s) = mounted s"
  "pendingUserMedia (stop_active_recorder s) = pendingUserMedia s"
  "mediaChunks (stop_active_recorder s) = mediaChunks s"
  "(mediaRecorder (stop_active_recorder s) = None) = (mediaRecorder s = None)"
  by (simp_all add: stop_active_recorder_def emit_def mounted_def
      split: option.splits recorder_state.splits)

lemma handleAnswered_capture:
  "(mediaRecorder (snd (handleAnswered decode ev s)) = None) = (mediaRecorder s = None)"
  "pendingUserMedia (snd (handleAnswered decode ev s)) = pendingUserMedia s"
  "mediaChunks (snd (handleAnswered decode ev s)) = mediaChunks s"
  by (auto simp: handleAnswered_def Let_def setViewState_legal emit_def triggerXAPIAnswered_def
      split: option.splits wrapper.splits)

lemma showSolutions_capture:
  "mediaRecorder (snd (showSolutions s)) = mediaRecorder s"
  "pendingUserMedia (snd (showSolutions s)) = pendingUserMedia s"
  "mediaChunks (snd (showSolutions s)) = mediaChunks s"
  by (auto simp: showSolutions_def Let_def setViewState_legal emit_def
      split: option.splits wrapper.splits)

lemma resetTask_capture:
  "mediaRecorder (snd (resetTask s)) = mediaRecorder s"
  "pendingUserMedia (snd (resetTask s)) = pendingUserMedia s"
  "mediaChunks (snd (resetTask s)) = mediaChunks s"
  by (auto simp: resetTask_def Let_def setViewState_legal emit_def
      split: option.splits wrapper.splits)

lemma stopListening_eq: "snd (stopListening s) = s \<or> snd (stopListening s) = emit [SpeechTrigger ''stop-all-media''] s"
  by (simp add: stopListening_def split: option.splits)

lemma callbacks_fields [simp]:
  "viewState (host_attach s) = viewState s" "score (host_attach s) = score s"
  "hasAnswered (host_attach s) = hasAnswered s"
  "lastInterpretations (host_attach s) = lastInterpretations s"
  "mounted (host_attach s) = mounted s"
  "mediaRecorder (host_attach s) = mediaRecorder s"
  "pendingUserMedia (host_attach s) = pendingUserMedia s"
  "mediaChunks (host_attach s) = mediaChunks s"
  "viewState (onUserMediaGranted s) = viewState s" "score (onUserMediaGranted s) = score s"
  "hasAnswered (onUserMediaGranted s) = hasAnswered s"
  "lastInterpretations (onUserMediaGranted s) = lastInterpretations s"
  "mounted (onUserMediaGranted s) = mounted s"
  "viewState (onUserMediaDenied s) = viewState s" "score (onUserMediaDenied s) = score s"
  "hasAnswered (onUserMediaDenied s) = hasAnswered s"
  "lastInterpretations (onUserMediaDenied s) = lastInterpretations s"
  "mounted (onUserMediaDenied s) = mounted s"
  "viewState (onStartListening s) = viewState s" "score (onStartListening s) = score s"
  "hasAnswered (onStartListening s) = hasAnswered s"
  "lastInterpretations (onStartListening s) = lastInterpretations s"
  "mounted (onStartListening s) = mounted s"
  "viewState (ondataavailable ch s) = viewState s" "score (ondataavailable ch s) = score s"
  "hasAnswered (ondataavailable ch s) = hasAnswered s"
  "lastInterpretations (ondataavailable ch s) = lastInterpretations s"
  "mounted (ondataavailable ch s) = mounted s"
  "viewState (onstop env s) = viewState s" "score (onstop env s) = score s"
  "hasAnswered (onstop env s) = hasAnswered s"
  "lastInterpretations (onstop env s) = lastInterpretations s"
  "mounted (onstop env s) = mounted s"
  by (simp_all add: host_attach_def onUserMediaGranted_def onUserMediaDenied_def
      onStartListening_def ondataavailable_def onstop_def emit_def mounted_def Let_def
      split: option.splits wrapper.splits recorder_state.splits)

lemma callbacks_no_capture:
  "no_capture s \<Longrightarrow> no_capture (onUserMediaGranted s)"
  "no_capture s \<Longrightarrow> no_capture (onUserMediaDenied s)"
  "no_capture s \<Longrightarrow> no_capture (onStartListening s)"
  "no_capture s \<Longrightarrow> no_capture (ondataavailable ch s)"
  "no_capture s \<Longrightarrow> no_capture (onstop env s)"
  by (simp_all add: no_capture_def onUserMediaGranted_def onUserMediaDenied_def
      onStartListening_def ondataavailable_def onstop_def)

lemma viewState_constructor_persisted:
  "persisted_shape ex \<Longrightarrow> viewState (constructor decode env ps ex) = Some ''task''"
  by (auto simp: viewState_constructor persisted_shape_def split: option.splits extras.splits)

subsection \<open>Invariants of reachable sessions\<close>

lemma legal_view_handleAnswered: "legal_view s \<Longrightarrow> legal_view (snd (handleAnswered decode ev s))"
  by (cases "mounted s") (simp_all add: legal_view_def handleAnswered_mounted handleAnswered_unmounted)

lemma legal_view_showSolutions: "legal_view s \<Longrightarrow> legal_view (snd (showSolutions s))"
  by (cases "mounted s") (simp_all add: legal_view_def showSolutions_mounted showSolutions_unmounted)

lemma legal_view_resetTask: "legal_view s \<Longrightarrow> legal_view (snd (resetTask s))"
  by (cases "mounted s") (simp_all add: legal_view_def resetTask_mounted resetTask_unmounted)

lemma legal_view_exec: "legal_view s \<Longrightarrow> legal_view (snd (exec decode env c s))"
proof (cases c)
  case RegisterDomElements
  assume "legal_view s"
  then have "legal_view (snd (registerDomElements decode env s))"
    by (rule registerDomElements_preserves [where P = legal_view, rotated -1])
       (simp_all add: legal_view_handleAnswered legal_view_showSolutions, simp_all add: legal_view_def)
  then show ?thesis using RegisterDomElements by simp
next
  case StopListening
  assume "legal_view s"
  then show ?thesis using StopListening stopListening_eq [of s] by (auto simp: legal_view_def)
qed (simp_all add: legal_view_handleAnswered legal_view_showSolutions legal_view_resetTask,
     simp_all add: legal_view_def)

lemma legal_view_reachable: "reachable decode env s \<Longrightarrow> legal_view s"
proof (induction rule: reachable.induct)
  case (constructed ex ps)
  then show ?case by (simp add: legal_view_def viewState_constructor_persisted)
next
  case (executed s c)
  then show ?case by (simp add: legal_view_exec)
qed

lemma no_capture_exec:
  assumes "getRecordingMIMEType env = None" and "no_capture s"
  shows "no_capture (snd (exec decode env c s))"
proof (cases c)
  case RegisterDomElements
  from assms(2) have "no_capture (snd (registerDomElements decode env s))"
    by (rule registerDomElements_preserves [where P = no_capture, rotated -1])
       (simp_all add: no_capture_def handleAnswered_capture showSolutions_capture assms(1))
  then show ?thesis using RegisterDomElements by simp
next
  case StopListening
  then show ?thesis using assms(2) stopListening_eq [of s] by (auto simp: no_capture_def)
qed (use assms(2) in \<open>simp_all add: callbacks_no_capture\<close>,
     simp_all add: no_capture_def handleAnswered_capture showSolutions_capture resetTask_capture)

lemma no_capture_reachable:
  assumes "getRecordingMIMEType env = None" and "reachable decode env s"
  shows "no_capture s"
  using assms(2)
proof (induction rule: reachable.induct)
  case (constructed ex ps)
  show ?case by (simp add: no_capture_def constructor_def Let_def setViewState_def emit_def
        createButtonBar_def)
next
  case (executed s c)
  then show ?case by (simp add: no_capture_exec assms(1))
qed

lemma dormant_handleAnswered: "dormant env s \<Longrightarrow> dormant env (snd (handleAnswered decode ev s))"
  by (cases "mounted s")
     (simp_all add: dormant_def untouched_def handleAnswered_mounted handleAnswered_unmounted)

lemma dormant_showSolutions: "dormant env s \<Longrightarrow> dormant env (snd (showSolutions s))"
  by (cases "mounted s")
     (simp_all add: dormant_def untouched_def showSolutions_mounted showSolutions_unmounted)

lemma dormant_resetTask: "dormant env s \<Longrightarrow> dormant env (snd (resetTask s))"
  by (cases "mounted s")
     (simp_all add: dormant_def untouched_def resetTask_mounted resetTask_unmounted)

lemma dormant_remount:
  assumes "dormant env t"
  shows "dormant env (t\<lparr>questionWrapper :=
                 map_option (\<lambda>w. Wrapper (contentParent env)) (questionWrapper t)\<rparr>)"
  using assms
  by (cases "questionWrapper t"; cases "contentParent env")
     (auto simp: dormant_def untouched_def mounted_def split: option.splits wrapper.splits)

lemma dormant_exec: "dormant env s \<Longrightarrow> dormant env (snd (exec decode env c s))"
proof (cases c)
  case RegisterDomElements
  assume "dormant env s"
  then have "dormant env (snd (registerDomElements decode env s))"
    by (rule registerDomElements_preserves [where P = "dormant env", rotated -1])
       (simp_all add: dormant_handleAnswered dormant_showSolutions dormant_remount,
        simp_all add: dormant_def untouched_def mounted_def)
  then show ?thesis using RegisterDomElements by simp
next
  case StopListening
  assume "dormant env s"
  then show ?thesis using StopListening stopListening_eq [of s]
    by (auto simp: dormant_def untouched_def)
qed (simp_all add: dormant_handleAnswered dormant_showSolutions dormant_resetTask,
     simp_all add: dormant_def untouched_def)

lemma dormant_reachable: "reachable decode env s \<Longrightarrow> dormant env s"
proof (induction rule: reachable.induct)
  case (constructed ex ps)
  have "\<not> mounted (constructor decode env ps ex)"
    by (simp add: constructor_def Let_def mounted_def setViewState_def emit_def createButtonBar_def)
  moreover have "untouched (constructor decode env ps ex)"
    using constructed
    by (simp add: untouched_def viewState_constructor_persisted,
        simp add: constructor_def Let_def setViewState_def emit_def createButtonBar_def)
  ultimately show ?case by (simp add: dormant_def)
next
  case (executed s c)
  then show ?case by (simp add: dormant_exec)
qed

lemma getCurrentState_untouched:
  "untouched s \<Longrightarrow> getCurrentState s = \<lparr>cs_viewState = Some ''task'', cs_lastInterpretations = []\<rparr>"
  by (auto simp: untouched_def getCurrentState_def)

lemma untouched_resetTask:
  assumes "mounted s \<or> reachable decode env s"
  shows "untouched (snd (resetTask s))"
proof (cases "mounted s")
  case True
  then show ?thesis by (simp add: untouched_def resetTask_mounted)
next
  case False
  with assms have "reachable decode env s" by simp
  from dormant_reachable [OF this] False show ?thesis
    by (simp add: dormant_def resetTask_unmounted)
qed

subsection \<open>Replay of a persisted state\<close>

lemma and_then_ok: "fst r = None \<Longrightarrow> and_then r f = f (snd r)"
  by (simp add: and_then_def)

lemma mediaMIMEType_kept:
  "mediaMIMEType (snd (handleAnswered decode ev s)) = mediaMIMEType s"
  "mediaMIMEType (snd (showSolutions s)) = mediaMIMEType s"
  "mediaMIMEType (emit cs s) = mediaMIMEType s"
  by (auto simp: handleAnswered_def showSolutions_def Let_def setViewState_legal emit_def
      triggerXAPIAnswered_def stop_active_recorder_def
      split: option.splits wrapper.splits recorder_state.splits)

lemma mediaMIMEType_registerDomElements:
  assumes "annyang env"
  shows "mediaMIMEType (snd (registerDomElements decode env s)) = getRecordingMIMEType env"
proof -
  have rec: "\<And>t. mediaMIMEType t = getRecordingMIMEType env \<Longrightarrow>
        mediaMIMEType (snd (recreateState decode t)) = getRecordingMIMEType env"
    by (rule recreateState_preserves [where P = "\<lambda>t. mediaMIMEType t = getRecordingMIMEType env"])
       (simp_all add: mediaMIMEType_kept)
  show ?thesis using assms
    by (simp add: registerDomElements_def Let_def rec emit_def split: option.splits list.splits)
qed

lemma replay_then_show:
  assumes m: "mounted s"
    and pv: "prev_viewState (previousState s) = Some ''solutions''"
  shows "\<exists>v. and_then
             (and_then (trigger_answered decode name l s)
               (\<lambda>t. if prev_viewState (previousState t) = Some ''solutions''
                    then showSolutions t else (None, t)))
             (\<lambda>t. case questionWrapper t of None \<Rightarrow> (Some TypeError, t)
                  | Some w \<Rightarrow> (None, emit [SpeechTrigger ''resize''] t)) = (None, v)
       \<and> viewState v = Some ''solutions''
       \<and> published v = published s
       \<and> score v =
           (if is_accepted (acceptedAnswers (params s)) (first_candidate l) then 1 else 0)
       \<and> hasAnswered v
       \<and> lastInterpretations v = Some l
       \<and> SpeechTrigger ''show-solution'' \<in> set (calls v)"
proof -
  obtain p where w: "questionWrapper s = Some (Wrapper (Some p))" using mountedE [OF m] by blast
  define s0 where "s0 = emit [SpeechTrigger name] s"
  define t where "t = snd (handleAnswered decode (Event l) s0)"
  have m0: "mounted s0" using m by (simp add: s0_def)
  have pub0: "published s0 = published s" by (simp add: s0_def published_def emit_def)
  note h = handleAnswered_mounted [OF m0, of decode "Event l"]
  have ht: "trigger_answered decode name l s = (None, t)"
    using h(1) by (simp add: t_def prod_eq_iff trigger_answered_def w s0_def)
  have pt: "prev_viewState (previousState t) = Some ''solutions''"
    using h(5) pv by (simp add: s0_def t_def)
  have mt: "mounted t" unfolding t_def by (rule h(7))
  define u where "u = snd (showSolutions t)"
  note sh = showSolutions_mounted [OF mt]
  have su: "showSolutions t = (None, u)"
    using sh(1) by (simp add: u_def prod_eq_iff)
  obtain y where mu: "questionWrapper u = Some y"
    using sh(3) by (cases "questionWrapper u") (simp_all add: mounted_def u_def)
  have "published t = published s" using h(9) pv pub0 by (simp add: s0_def truthy_def t_def)
  then have "published (emit [SpeechTrigger ''resize''] u) = published s"
    using sh(9) by (simp add: published_def emit_def u_def)
  moreover have "score t = (if is_accepted (acceptedAnswers (params s)) (first_candidate l) then 1 else 0)"
    using h(8) by (simp add: s0_def t_def)
  ultimately show ?thesis
    using sh h(3,4)
    by (simp add: ht and_then_def pt su mu emit_def u_def [symmetric] t_def [symmetric])
qed

lemma recreateState_solutions:
  assumes m: "mounted s"
    and pv: "prev_viewState (previousState s) = Some ''solutions''"
    and li: "prev_lastInterpretations (previousState s) = Some l"
  shows "fst (recreateState decode s) = None
       \<and> viewState (snd (recreateState decode s)) = Some ''solutions''
       \<and> published (snd (recreateState decode s)) = published s
       \<and> score (snd (recreateState decode s)) =
           (if is_accepted (acceptedAnswers (params s)) (first_candidate l) then 1 else 0)
       \<and> hasAnswered (snd (recreateState decode s))
       \<and> lastInterpretations (snd (recreateState decode s)) = Some l
       \<and> SpeechTrigger ''show-solution'' \<in> set (calls (snd (recreateState decode s)))"
proof (cases "is_accepted (acceptedAnswers (params s)) (first_candidate l)")
  case True
  from replay_then_show [OF m pv, of decode "''answered-correctly''" l] True
  show ?thesis by (auto simp: recreateState_def li pv Let_def)
next
  case False
  from replay_then_show [OF m pv, of decode "''answered-wrong''" l] False
  show ?thesis by (auto simp: recreateState_def li pv Let_def)
qed

subsection \<open>Parameters, concrete sessions and the two copies of \<^verbatim>\<open>handleAnswered\<close>\<close>

lemma params_kept:
  "params (snd (handleAnswered decode ev s)) = params s"
  "params (snd (showSolutions s)) = params s"
  "params (snd (resetTask s)) = params s"
  "params (snd (stopListening s)) = params s"
  by (cases "mounted s";
      simp add: handleAnswered_mounted handleAnswered_unmounted showSolutions_mounted
        showSolutions_unmounted resetTask_mounted resetTask_unmounted stopListening_def
        split: option.splits)+

lemma params_callbacks:
  "params (host_attach s) = params s"
  "params (onUserMediaGranted s) = params s"
  "params (onUserMediaDenied s) = params s"
  "params (onStartListening s) = params s"
  "params (ondataavailable ch s) = params s"
  "params (onstop env s) = params s"
  by (simp_all add: host_attach_def onUserMediaGranted_def onUserMediaDenied_def
      onStartListening_def ondataavailable_def onstop_def emit_def Let_def
      split: option.splits wrapper.splits recorder_state.splits)

lemma params_exec: "params (snd (exec decode env c s)) = params s"
proof (cases c)
  case RegisterDomElements
  have "params (snd (registerDomElements decode env s)) = params s"
    by (rule registerDomElements_preserves [where P = "\<lambda>t. params t = params s"])
       (simp_all add: params_kept)
  then show ?thesis using RegisterDomElements by simp
qed (simp_all add: params_kept params_callbacks)

lemma reachable_fresh_task: "reachable id plain_env fresh_task"
proof -
  have "reachable id plain_env (constructor id plain_env paris_params None)"
    by (rule reachable.constructed) (simp add: persisted_shape_def)
  from reachable.executed [OF this, of RegisterDomElements] show ?thesis
    by (simp add: fresh_task_def)
qed

lemma answered_wrong_facts:
  "mounted answered_wrong" "viewState answered_wrong = Some ''results''"
  "score answered_wrong = 0" "hasAnswered answered_wrong"
  "lastInterpretations answered_wrong = Some [''london'']"
  by (simp_all add: answered_wrong_def handleAnswered_mounted fresh_task_facts is_accepted_first)

lemma handleAnswered_without_recorder:
  assumes "mediaRecorder s = None" and "mounted s"
  shows "fst (handleAnswered decode ev s) = None
       \<and> score (snd (handleAnswered decode ev s)) =
           (if is_accepted (acceptedAnswers (params s)) (first_candidate (data ev)) then 1 else 0)
       \<and> hasAnswered (snd (handleAnswered decode ev s))
       \<and> SetFeedback
             (decode (if is_accepted (acceptedAnswers (params s)) (first_candidate (data ev))
                      then correctAnswerText (params s) else incorrectAnswerText (params s)))
             (score (snd (handleAnswered decode ev s))) 1
           \<in> set (calls (snd (handleAnswered decode ev s)))"
  using assms by (auto simp: handleAnswered_mounted handleAnswered_calls)

lemma handleAnswered_part_000_without_recorder:
  "mediaRecorder s = None \<Longrightarrow> handleAnswered_part_000 decode ev s = (Some TypeError, s)"
  by (simp add: handleAnswered_part_000_def)

lemma fresh_task_part_000_eq:
  "fresh_task_part_000 =
     \<lparr>params = paris_params, previousState = empty_object, mediaRecorder = None,
      mediaChunks = [], mediaMIMEType = None, hasAnswered = False, score = 0,
      viewState = None, lastInterpretations = None,
      questionWrapper = Some (Wrapper (Some \<lparr>classList = [], grandParent = None\<rparr>)),
      pendingUserMedia = 0, startListeningHandlers = 0,
      calls = [AddButton ''try-again'', AddButton ''show-solution'',
               SetIntroduction (QuestionText ''Capital of France?''), SetContent]\<rparr>"
  by (simp add: fresh_task_part_000_def constructor_part_000_def
      registerDomElements_part_000_def plain_env_def getRecordingMIMEType_def truthy_def
      Let_def emit_def createButtonBar_def empty_object_def paris_params_def)

lemma fresh_task_part_000_facts:
  "mediaRecorder fresh_task_part_000 = None" "mounted fresh_task_part_000"
  "score fresh_task_part_000 = 0" "\<not> hasAnswered fresh_task_part_000"
  by (simp_all add: fresh_task_part_000_eq mounted_def)

lemma constructor_plain_unmounted: "\<not> mounted (constructor id plain_env paris_params None)"
  by (simp add: constructor_plain mounted_def)

lemma env_facts:
  "annyang plain_env" "mediaRecorderApi plain_env = None"
  "mediaRecorderApi legacy_env = Some None"
  "mediaRecorderApi mp4_env = Some (Some (\<lambda>t. t = ''audio/mp4''))"
  by (simp_all add: plain_env_def legacy_env_def mp4_env_def)

section \<open>The claims\<close>

text \<open>
  C1. Answer evaluation is exact membership. The accepted answers the controller keeps
  are the author's answers, each decoded by the constructor; the comparison
  \<^verbatim>\<open>acceptedAnswers.indexOf(response) !== -1\<close> is true exactly when the response is an
  element of that list, letter case included; the score \<^verbatim>\<open>handleAnswered\<close> sets for the
  first candidate is 1 in that case and 0 otherwise; and no later operation changes the
  stored answers, so they are decoded once.
\<close>

theorem accepted_answer_evaluation:
  "acceptedAnswers (params (constructor decode env ps ex)) = map decode (acceptedAnswers ps)
   \<and> is_accepted A (Some r) = (r \<in> set A)
   \<and> (mounted s \<longrightarrow>
        score (snd (handleAnswered decode (Event (r # rest)) s)) =
          (if r \<in> set (acceptedAnswers (params s)) then 1 else 0))
   \<and> params (snd (exec decode env c s)) = params s"
  by (simp add: handleAnswered_mounted is_accepted_first is_accepted_Some constructor_def Let_def
      setViewState_def emit_def createButtonBar_def params_exec)

theorem accepted_answer_evaluation_witness:
  "mounted fresh_task
   \<and> acceptedAnswers (params fresh_task) = [''paris'']
   \<and> score (snd (handleAnswered id (Event [''paris'', ''pari'']) fresh_task)) = 1
   \<and> score (snd (handleAnswered id (Event [''Paris'']) fresh_task)) = 0
   \<and> \<not> is_accepted [''paris''] (Some ''Paris'')"
  using accepted_answer_evaluation [of id plain_env paris_params None "[''paris'']" "''Paris''"
      fresh_task "[]" RegisterDomElements]
    accepted_answer_evaluation [of id plain_env paris_params None "[''paris'']" "''paris''"
      fresh_task "[''pari'']" RegisterDomElements]
  by (simp add: fresh_task_facts)

text \<open>
  C2, as stated, fails: a fresh session in view state \<open>task\<close> that receives the same
  outcome event twice publishes two Interaction Outcome Records, the second one while the
  view state is already \<open>results\<close>.
\<close>

theorem replayed_outcome_publishes_again:
  "viewState fresh_task = Some ''task'' \<and>
   viewState (snd (handleAnswered id (Event [''paris'']) fresh_task)) = Some ''results'' \<and>
   published (snd (handleAnswered id (Event [''paris'']) fresh_task)) = 1 \<and>
   published (snd (handleAnswered id (Event [''paris''])
                (snd (handleAnswered id (Event [''paris'']) fresh_task)))) = 2"
  by (simp add: handleAnswered_mounted fresh_task_facts truthy_def)

text \<open>
  C2, amended. In every session whose content is mounted, a recognition outcome event is
  handled without error and moves the view state to \<open>results\<close>. It publishes exactly one
  Interaction Outcome Record when the view state of the previous (persisted) state is
  missing, empty or \<open>task\<close>, and none otherwise. The test reads the previous state only,
  which the handling leaves as it is: the same event delivered a second time publishes
  under the same condition again.
\<close>

theorem outcome_record_follows_previous_state:
  "mounted s \<Longrightarrow>
     fst (handleAnswered decode ev s) = None \<and>
     viewState (snd (handleAnswered decode ev s)) = Some ''results'' \<and>
     published (snd (handleAnswered decode ev s)) =
       published s +
       (if \<not> truthy (prev_viewState (previousState s))
           \<or> prev_viewState (previousState s) = Some ''task'' then 1 else 0) \<and>
     previousState (snd (handleAnswered decode ev s)) = previousState s \<and>
     published (snd (handleAnswered decode ev (snd (handleAnswered decode ev s)))) =
       published s +
       (if \<not> truthy (prev_viewState (previousState s))
           \<or> prev_viewState (previousState s) = Some ''task'' then 2 else 0)"
  by (simp add: handleAnswered_mounted)

theorem outcome_record_follows_previous_state_witness:
  "mounted fresh_task \<and>
     fst (handleAnswered id (Event [''london'']) fresh_task) = None \<and>
     viewState (snd (handleAnswered id (Event [''london'']) fresh_task)) = Some ''results'' \<and>
     published (snd (handleAnswered id (Event [''london'']) fresh_task)) = 1"
  using outcome_record_follows_previous_state [of fresh_task id "Event [''london'']"]
  by (simp add: fresh_task_facts truthy_def)

text \<open>
  C3. Reset returns to the task. From every session that is mounted, and from every
  session that is reachable, the state after \<^verbatim>\<open>resetTask\<close> has view state \<open>task\<close>, score 0,
  is not answered, and \<^verbatim>\<open>getCurrentState\<close> returns the view state \<open>task\<close> with no
  interpretations. On a mounted wrapper the call returns normally and the list of last
  interpretations is the empty list; on a wrapper without a parent node its first
  statement throws and the fields stay as they are.
\<close>

theorem resetTask_restores_task:
  "((mounted s \<or> reachable decode env s) \<longrightarrow>
      viewState (snd (resetTask s)) = Some ''task''
      \<and> getScore (snd (resetTask s)) = 0
      \<and> \<not> isQuestionAnswered (snd (resetTask s))
      \<and> getCurrentState (snd (resetTask s)) =
           \<lparr>cs_viewState = Some ''task'', cs_lastInterpretations = []\<rparr>)
   \<and> (mounted s \<longrightarrow>
        fst (resetTask s) = None \<and> lastInterpretations (snd (resetTask s)) = Some [])
   \<and> (\<not> mounted s \<longrightarrow> resetTask s = (Some TypeError, s))"
proof -
  have "untouched (snd (resetTask s))" if "mounted s \<or> reachable decode env s"
    using untouched_resetTask [OF that] .
  then show ?thesis
    by (auto simp: getCurrentState_untouched getScore_def isQuestionAnswered_def
        resetTask_mounted resetTask_unmounted, auto simp: untouched_def)
qed

theorem resetTask_restores_task_witness:
  "mounted answered_wrong
   \<and> viewState answered_wrong = Some ''results''
   \<and> lastInterpretations answered_wrong = Some [''london'']
   \<and> fst (resetTask answered_wrong) = None
   \<and> viewState (snd (resetTask answered_wrong)) = Some ''task''
   \<and> getScore (snd (resetTask answered_wrong)) = 0
   \<and> \<not> isQuestionAnswered (snd (resetTask answered_wrong))
   \<and> getCurrentState (snd (resetTask answered_wrong)) =
        \<lparr>cs_viewState = Some ''task'', cs_lastInterpretations = []\<rparr>
   \<and> reachable id plain_env fresh_task
   \<and> getCurrentState (snd (resetTask fresh_task)) =
        \<lparr>cs_viewState = Some ''task'', cs_lastInterpretations = []\<rparr>"
  using resetTask_restores_task [of answered_wrong id plain_env]
    resetTask_restores_task [of fresh_task id plain_env]
  by (simp add: answered_wrong_facts reachable_fresh_task)

text \<open>
  C4, as stated, fails: \<^verbatim>\<open>showSolutions\<close> on a fresh session in view state \<open>task\<close> returns
  normally and leaves the view state \<open>solutions\<close>.
\<close>

theorem showSolutions_from_task_changes_view:
  "viewState fresh_task = Some ''task'' \<and>
   fst (showSolutions fresh_task) = None \<and>
   viewState (snd (showSolutions fresh_task)) = Some ''solutions''"
  by (simp add: showSolutions_mounted fresh_task_facts)

text \<open>
  C4, amended. \<^verbatim>\<open>showSolutions\<close> does not look at the current view state: on every mounted
  session, the view state \<open>task\<close> included, it returns normally and sets the view state to
  \<open>solutions\<close>. The view state stays as it is only where the wrapper has no parent node,
  because the call then throws before it changes anything.
\<close>

theorem showSolutions_sets_solutions:
  "(mounted s \<longrightarrow> fst (showSolutions s) = None
       \<and> viewState (snd (showSolutions s)) = Some ''solutions'')
   \<and> (\<not> mounted s \<longrightarrow> showSolutions s = (Some TypeError, s))"
  by (simp add: showSolutions_mounted showSolutions_unmounted)

theorem showSolutions_sets_solutions_witness:
  "mounted answered_wrong
   \<and> viewState answered_wrong = Some ''results''
   \<and> fst (showSolutions answered_wrong) = None
   \<and> viewState (snd (showSolutions answered_wrong)) = Some ''solutions''
   \<and> \<not> mounted (constructor id plain_env paris_params None)
   \<and> showSolutions (constructor id plain_env paris_params None) =
        (Some TypeError, constructor id plain_env paris_params None)"
  using showSolutions_sets_solutions [of answered_wrong]
    showSolutions_sets_solutions [of "constructor id plain_env paris_params None"]
  by (simp add: answered_wrong_facts constructor_plain_unmounted)

text \<open>
  C5. A request for a view state outside \<open>task\<close>, \<open>results\<close>, \<open>solutions\<close> is ignored:
  \<^verbatim>\<open>setViewState\<close> has no throwing branch and returns the session unchanged, view state
  and log included. As a consequence the view state is one of the three names after every
  operation: \<^verbatim>\<open>setViewState\<close> and every command keep it legal, and it is legal in every
  reachable session.
\<close>

theorem invalid_view_state_ignored:
  "(v \<notin> {''task'', ''results'', ''solutions''} \<longrightarrow> setViewState v s = s)
   \<and> (legal_view s \<longrightarrow> legal_view (setViewState v s))
   \<and> (legal_view s \<longrightarrow> legal_view (snd (exec decode env c s)))
   \<and> (reachable decode env s \<longrightarrow> legal_view s)"
proof -
  have "legal_view (setViewState v s)" if "legal_view s"
    using that by (auto simp: legal_view_def viewState_setViewState)
  then show ?thesis
    by (simp add: setViewState_illegal legal_view_exec legal_view_reachable del: insert_iff)
qed

theorem invalid_view_state_ignored_witness:
  "''done'' \<notin> {''task'', ''results'', ''solutions''}
   \<and> setViewState ''done'' fresh_task = fresh_task
   \<and> reachable id plain_env fresh_task
   \<and> legal_view fresh_task
   \<and> legal_view (setViewState ''done'' fresh_task)
   \<and> legal_view (snd (exec id plain_env (Answered (Event [''london''])) fresh_task))"
  using invalid_view_state_ignored [of "''done''" fresh_task id plain_env
      "Answered (Event [''london''])"]
  by (simp add: reachable_fresh_task)

text \<open>
  C6. Resuming in the solutions view. Where the speech engine exists, the host's
  \<^verbatim>\<open>setContent\<close> gives the wrapper a parent node and \<^verbatim>\<open>navigator.mediaDevices\<close> exists if a
  recording type was negotiated, initialisation from a persisted state with view state
  \<open>solutions\<close> and a non-empty list \<open>L\<close> of interpretations returns normally; it has replayed
  the evaluation of \<open>L\<close> (score, answered flag, last interpretations), shown the solution,
  ends in view state \<open>solutions\<close>, and has published no Interaction Outcome Record.
\<close>

theorem resume_solutions_snapshot:
  assumes "annyang env" and "contentParent env = Some par"
    and "truthy (getRecordingMIMEType env) \<longrightarrow> mediaDevices env"
    and "L \<noteq> []"
  shows "fst (resume decode env ps
                \<lparr>cs_viewState = Some ''solutions'', cs_lastInterpretations = L\<rparr>) = None
    \<and> viewState (snd (resume decode env ps
                \<lparr>cs_viewState = Some ''solutions'', cs_lastInterpretations = L\<rparr>))
        = Some ''solutions''
    \<and> published (snd (resume decode env ps
                \<lparr>cs_viewState = Some ''solutions'', cs_lastInterpretations = L\<rparr>)) = 0
    \<and> score (snd (resume decode env ps
                \<lparr>cs_viewState = Some ''solutions'', cs_lastInterpretations = L\<rparr>))
        = (if hd L \<in> set (map decode (acceptedAnswers ps)) then 1 else 0)
    \<and> hasAnswered (snd (resume decode env ps
                \<lparr>cs_viewState = Some ''solutions'', cs_lastInterpretations = L\<rparr>))
    \<and> lastInterpretations (snd (resume decode env ps
                \<lparr>cs_viewState = Some ''solutions'', cs_lastInterpretations = L\<rparr>)) = Some L
    \<and> SpeechTrigger ''show-solution'' \<in> set (calls (snd (resume decode env ps
                \<lparr>cs_viewState = Some ''solutions'', cs_lastInterpretations = L\<rparr>)))"
proof -
  define s0 where "s0 = constructor decode env ps
            (Some (Extras (Some (as_previous
               \<lparr>cs_viewState = Some ''solutions'', cs_lastInterpretations = L\<rparr>))))"
  define s4 where "s4 = (let s1 = s0\<lparr>mediaMIMEType := getRecordingMIMEType env\<rparr>;
                   s2 = (if truthy (mediaMIMEType s1)
                         then (emit [GetUserMedia] s1)
                                \<lparr>pendingUserMedia := pendingUserMedia s1 + 1\<rparr>
                         else s1);
                   s3 = emit [SetIntroduction
                                (QuestionText (decode (question_text (params s2)))),
                              SetContent] s2
       in s3\<lparr>questionWrapper :=
                 map_option (\<lambda>w. Wrapper (contentParent env)) (questionWrapper s3)\<rparr>)"
  have c: "questionWrapper s0 = Some (Wrapper None)"
     "previousState s0 =
        as_previous \<lparr>cs_viewState = Some ''solutions'', cs_lastInterpretations = L\<rparr>"
     "published s0 = 0"
     "acceptedAnswers (params s0) = map decode (acceptedAnswers ps)"
    using assms(1)
    by (simp_all add: s0_def constructor_def Let_def setViewState_legal as_previous_def
        emit_def createButtonBar_def published_def)
  obtain x xs where L: "L = x # xs" using assms(4) by (cases L) auto
  have r: "registerDomElements decode env s0 = recreateState decode s4"
    using assms(1,3) c
    by (simp add: registerDomElements_def s4_def Let_def as_previous_def L emit_def)
  have m4: "mounted s4" using c assms(2) by (simp add: s4_def Let_def mounted_def emit_def)
  have p4: "prev_viewState (previousState s4) = Some ''solutions''"
    "prev_lastInterpretations (previousState s4) = Some L"
    "published s4 = 0"
    "acceptedAnswers (params s4) = map decode (acceptedAnswers ps)"
    using c by (simp_all add: s4_def Let_def as_previous_def emit_def published_def)
  from recreateState_solutions [OF m4 p4(1,2), of decode] show ?thesis
    by (simp add: resume_def r s0_def [symmetric] p4 is_accepted_first assms(4))
qed

theorem resume_solutions_snapshot_witness:
  "annyang plain_env
   \<and> contentParent plain_env = Some \<lparr>classList = [], grandParent = None\<rparr>
   \<and> \<not> truthy (getRecordingMIMEType plain_env)
   \<and> fst (resume id plain_env paris_params
            \<lparr>cs_viewState = Some ''solutions'', cs_lastInterpretations = [''paris'']\<rparr>) = None
   \<and> viewState (snd (resume id plain_env paris_params
            \<lparr>cs_viewState = Some ''solutions'', cs_lastInterpretations = [''paris'']\<rparr>))
        = Some ''solutions''
   \<and> published (snd (resume id plain_env paris_params
            \<lparr>cs_viewState = Some ''solutions'', cs_lastInterpretations = [''paris'']\<rparr>)) = 0
   \<and> score (snd (resume id plain_env paris_params
            \<lparr>cs_viewState = Some ''solutions'', cs_lastInterpretations = [''paris'']\<rparr>)) = 1"
  using resume_solutions_snapshot [of plain_env "\<lparr>classList = [], grandParent = None\<rparr>"
      "[''paris'']" id paris_params]
  by (simp add: plain_env_def getRecordingMIMEType_def truthy_def paris_params_def)

text \<open>
  C7. The recording type is a function of what the browser offers: none without a
  recorder API; \<open>audio/mp4\<close> when the API cannot be asked which types it supports;
  otherwise \<open>audio/webm\<close> if supported, else \<open>audio/mp4\<close> if supported, else none.
  \<^verbatim>\<open>registerDomElements\<close> stores it when the speech engine exists; and where it is none,
  no reachable session has a media recorder or a pending request for one.
\<close>

theorem recording_mime_negotiation:
  "(mediaRecorderApi env = None \<longrightarrow> getRecordingMIMEType env = None)
   \<and> (mediaRecorderApi env = Some None \<longrightarrow> getRecordingMIMEType env = Some ''audio/mp4'')
   \<and> (mediaRecorderApi env = Some (Some f) \<longrightarrow>
        getRecordingMIMEType env =
          (if f ''audio/webm'' then Some ''audio/webm''
           else if f ''audio/mp4'' then Some ''audio/mp4'' else None))
   \<and> (annyang env \<longrightarrow>
        mediaMIMEType (snd (registerDomElements decode env s)) = getRecordingMIMEType env)
   \<and> (getRecordingMIMEType env = None \<longrightarrow> reachable decode env s \<longrightarrow>
        mediaRecorder s = None \<and> pendingUserMedia s = 0 \<and> mediaChunks s = [])"
  using no_capture_reachable [of env decode s]
  by (auto simp: getRecordingMIMEType_def mediaMIMEType_registerDomElements no_capture_def)

theorem recording_mime_negotiation_witness:
  "mediaRecorderApi plain_env = None
   \<and> getRecordingMIMEType plain_env = None
   \<and> annyang plain_env
   \<and> reachable id plain_env fresh_task
   \<and> mediaRecorder fresh_task = None
   \<and> mediaRecorderApi legacy_env = Some None
   \<and> getRecordingMIMEType legacy_env = Some ''audio/mp4''
   \<and> mediaRecorderApi mp4_env = Some (Some (\<lambda>t. t = ''audio/mp4''))
   \<and> getRecordingMIMEType mp4_env = Some ''audio/mp4''"
  using recording_mime_negotiation [of plain_env "\<lambda>t. t = ''audio/mp4''" id fresh_task]
    recording_mime_negotiation [of legacy_env "\<lambda>t. t = ''audio/mp4''" id fresh_task]
    recording_mime_negotiation [of mp4_env "\<lambda>t. t = ''audio/mp4''" id fresh_task]
  by (simp add: reachable_fresh_task env_facts)

text \<open>
  C8 holds for \<^verbatim>\<open>speak-the-words.js\<close> (lemma \<open>handleAnswered_without_recorder\<close>) and fails
  for \<^verbatim>\<open>part_000\<close>: in a session of \<^verbatim>\<open>part_000\<close> constructed and registered in a browser
  without a recorder API, the media recorder is null, the content is mounted, and
  \<^verbatim>\<open>handleAnswered\<close> throws a TypeError on \<^verbatim>\<open>this.mediaRecorder.state\<close> before it evaluates
  anything: the score stays 0, the question is not marked answered and no call is made.
  The same event in the same browser is evaluated by \<^verbatim>\<open>speak-the-words.js\<close>.
\<close>

theorem part_000_handleAnswered_needs_recorder:
  "mediaRecorder fresh_task_part_000 = None
   \<and> mounted fresh_task_part_000
   \<and> handleAnswered_part_000 id (Event [''paris'']) fresh_task_part_000
       = (Some TypeError, fresh_task_part_000)
   \<and> score fresh_task_part_000 = 0
   \<and> \<not> hasAnswered fresh_task_part_000
   \<and> mediaRecorder fresh_task = None
   \<and> fst (handleAnswered id (Event [''paris'']) fresh_task) = None
   \<and> score (snd (handleAnswered id (Event [''paris'']) fresh_task)) = 1
   \<and> hasAnswered (snd (handleAnswered id (Event [''paris'']) fresh_task))"
  by (simp add: handleAnswered_part_000_without_recorder fresh_task_part_000_facts
      handleAnswered_mounted fresh_task_facts is_accepted_first)

theorem part_000_handleAnswered_needs_recorder_witness:
  "fst (handleAnswered_part_000 id (Event [''paris'']) fresh_task_part_000) = Some TypeError
   \<and> score (snd (handleAnswered_part_000 id (Event [''paris'']) fresh_task_part_000)) = 0
   \<and> \<not> hasAnswered (snd (handleAnswered_part_000 id (Event [''paris'']) fresh_task_part_000))
   \<and> fst (handleAnswered id (Event [''paris'']) fresh_task) = None"
  using part_000_handleAnswered_needs_recorder by simp

text \<open>
  C9. With the accepted answers \<open>["paris"]\<close> and the content mounted: the candidates
  \<open>["paris", "pari"]\<close> are evaluated as correct on the first one, the score becomes 1 and
  the only calls on the two controls hide try-again and show-solution; the candidates
  \<open>["london"]\<close> are evaluated as incorrect, the score becomes 0 and the only calls on the
  two controls show try-again and show-solution.
\<close>

theorem paris_scenarios:
  assumes "acceptedAnswers (params s) = [''paris'']" and "mounted s"
  shows "is_accepted (acceptedAnswers (params s)) (first_candidate [''paris'', ''pari''])
       \<and> fst (handleAnswered decode (Event [''paris'', ''pari'']) s) = None
       \<and> score (snd (handleAnswered decode (Event [''paris'', ''pari'']) s)) = 1
       \<and> button_calls_since s (snd (handleAnswered decode (Event [''paris'', ''pari'']) s)) =
           [HideButton ''try-again'', HideButton ''show-solution'']
       \<and> \<not> is_accepted (acceptedAnswers (params s)) (first_candidate [''london''])
       \<and> fst (handleAnswered decode (Event [''london'']) s) = None
       \<and> score (snd (handleAnswered decode (Event [''london'']) s)) = 0
       \<and> button_calls_since s (snd (handleAnswered decode (Event [''london'']) s)) =
           [ShowButton ''try-again'', ShowButton ''show-solution'']"
  using assms
  by (simp add: handleAnswered_mounted handleAnswered_calls button_calls_since_def
      is_accepted_first)

theorem paris_scenarios_witness:
  "acceptedAnswers (params fresh_task) = [''paris''] \<and> mounted fresh_task
   \<and> score (snd (handleAnswered id (Event [''paris'', ''pari'']) fresh_task)) = 1
   \<and> button_calls_since fresh_task
        (snd (handleAnswered id (Event [''paris'', ''pari'']) fresh_task)) =
        [HideButton ''try-again'', HideButton ''show-solution'']
   \<and> score (snd (handleAnswered id (Event [''london'']) fresh_task)) = 0
   \<and> button_calls_since fresh_task
        (snd (handleAnswered id (Event [''london'']) fresh_task)) =
        [ShowButton ''try-again'', ShowButton ''show-solution'']"
  using paris_scenarios [of fresh_task id]
  by (simp add: fresh_task_facts)

text \<open>
  C10. Right after construction the view state is \<open>task\<close> for every input of the
  persisted shape, whatever view state it carries: the constructor reads the key
  \<^verbatim>\<open>vieState\<close>, which a state returned by \<^verbatim>\<open>getCurrentState\<close> never has, and the value under
  \<^verbatim>\<open>viewState\<close> has no influence on the view state it sets.
\<close>

theorem constructor_starts_in_task:
  "(persisted_shape ex \<longrightarrow> viewState (constructor decode env ps ex) = Some ''task'')
   \<and> persisted_shape (Some (Extras (Some (as_previous c))))
   \<and> viewState (constructor decode env ps (Some (Extras (Some (as_previous c))))) = Some ''task''
   \<and> viewState (constructor decode env ps (Some (Extras (Some (p\<lparr>prev_viewState := v\<rparr>)))))
       = viewState (constructor decode env ps (Some (Extras (Some p))))"
  by (simp add: persisted_shape_def as_previous_def viewState_constructor
      split: option.splits extras.splits del: insert_iff)

theorem constructor_starts_in_task_witness:
  "persisted_shape (Some (Extras (Some (as_previous (getCurrentState answered_wrong)))))
   \<and> cs_viewState (getCurrentState answered_wrong) = Some ''results''
   \<and> viewState (constructor id plain_env paris_params
        (Some (Extras (Some (as_previous (getCurrentState answered_wrong)))))) = Some ''task''"
  using constructor_starts_in_task [of
      "Some (Extras (Some (as_previous (getCurrentState answered_wrong))))"
      id plain_env paris_params "getCurrentState answered_wrong"]
  by (simp add: getCurrentState_def answered_wrong_facts)

end
